theory Spec2Isabelle
  imports Main "HOL-Library.Sublist"
begin

section \<open>Python values the client handles\<close>

text \<open>
  A \<open>dict\<close> with string keys and string values. \<open>d k = None\<close> is a missing key:
  \<open>d.get(k, default)\<close> is a case distinction on \<open>d k\<close>, and \<open>d[k]\<close> raises
  \<open>KeyError\<close> there.
\<close>

type_synonym dict = "string \<rightharpoonup> string"

text \<open>
  \<open>os.path.basename\<close> (posixpath): everything after the last slash, the whole path when
  it has none.
\<close>

definition basename :: "string \<Rightarrow> string" where
  "basename p = rev (takeWhile (\<lambda>c. c \<noteq> CHR ''/'') (rev p))"

text \<open>\<open>s.strip(q)\<close> for a single character \<open>q\<close>: every leading and trailing \<open>q\<close> is removed.\<close>

definition strip :: "char \<Rightarrow> string \<Rightarrow> string" where
  "strip q s = rev (dropWhile (\<lambda>c. c = q) (rev (dropWhile (\<lambda>c. c = q) s)))"

text \<open>
  A timestamp as the collaborator returns it, identified with the text that \<open>str\<close>
  prints for it.
\<close>

datatype datetime = Datetime string

fun str_datetime :: "datetime \<Rightarrow> string" where
  "str_datetime (Datetime t) = t"

text \<open>\<open>x or d\<close> for an optional string \<open>x\<close>: \<open>None\<close> and the empty string are falsy.\<close>

definition str_or :: "string option \<Rightarrow> string \<Rightarrow> string" where
  "str_or x d = (case x of None \<Rightarrow> d | Some v \<Rightarrow> if v = [] then d else v)"

text \<open>
  \<open>x or {}\<close> for an optional dict \<open>x\<close>: \<open>None\<close> gives the empty dict; an empty dict is
  falsy too and is replaced by an empty dict, every other dict is kept.
\<close>

definition dict_or_empty :: "dict option \<Rightarrow> dict" where
  "dict_or_empty x = (case x of None \<Rightarrow> Map.empty | Some d \<Rightarrow> d)"

section \<open>exceptions.py\<close>

text \<open>
  \<open>botocore.exceptions.ClientError\<close>: its \<open>response\<close> is a dict whose entry \<open>Error\<close>,
  when present, is a dict that may hold \<open>Code\<close> and \<open>Message\<close>.
\<close>

datatype ClientError = ClientError (response: "string \<rightharpoonup> dict")

text \<open>The four classes of the hierarchy; \<open>ObjectsError\<close> is the base class of the others.\<close>

datatype exc_class = ObjectsError | UploadError | DownloadError | ListError

text \<open>
  What an operation of the client can raise: an error of the hierarchy with the three
  attributes \<open>ObjectsError.__init__\<close> stores, Python's own \<open>FileNotFoundError\<close> and
  \<open>KeyError\<close>, or an exception of the collaborator that is not a \<open>ClientError\<close> and
  passes through every \<open>except ClientError\<close> unchanged.
\<close>

datatype exn =
    Objects_exc (cls: exc_class) (message: string) (code: string) (original: "ClientError option")
  | FileNotFoundError string
  | KeyError string
  | Uncaught string

fun is_ObjectsError :: "exn \<Rightarrow> bool" where
  "is_ObjectsError (Objects_exc c m k orig) = True"
| "is_ObjectsError (FileNotFoundError m) = False"
| "is_ObjectsError (KeyError k) = False"
| "is_ObjectsError (Uncaught x) = False"

text \<open>\<open>ObjectsError.__str__\<close>: the code in brackets before the message, when there is a code.\<close>

definition ObjectsError_str :: "string \<Rightarrow> string \<Rightarrow> string" where
  "ObjectsError_str m k = (if k \<noteq> [] then ''['' @ k @ ''] '' @ m else m)"

section \<open>client.py: data\<close>

definition DEFAULT_ENDPOINT :: string where
  "DEFAULT_ENDPOINT = ''https://s3.nevaobjects.id''"

record ObjectInfo =
  key :: string
  size' :: int
  last_modified :: string
  etag :: string

record ObjectsConfig =
  access_key :: string
  secret_key :: string
  bucket :: string
  endpoint :: string
  default_expiry :: int
  extra_boto_config :: dict

text \<open>The dataclass constructor with its defaults.\<close>

definition ObjectsConfig_init :: "string \<Rightarrow> string \<Rightarrow> string \<Rightarrow> ObjectsConfig" where
  "ObjectsConfig_init ak sk b =
     \<lparr>access_key = ak, secret_key = sk, bucket = b, endpoint = DEFAULT_ENDPOINT,
      default_expiry = 86400, extra_boto_config = Map.empty\<rparr>"

section \<open>The collaborator\<close>

text \<open>
  The boto3 S3 client is not part of the repository: it is a parameter. Every request
  the wrapper sends is a value of \<open>s3_call\<close>, with the keyword arguments of the source
  in the order written below.
\<close>

datatype s3_call =
    UploadFile string string string dict
  | ListObjectsV2 string string int
  | GeneratePresignedUrl string string string int
  | DeleteObject string string
  | HeadObject string string

text \<open>
  \<open>UploadFile Filename Bucket Key ExtraArgs\<close>, \<open>ListObjectsV2 Bucket Prefix MaxKeys\<close>,
  \<open>GeneratePresignedUrl ClientMethod Bucket Key ExpiresIn\<close>, \<open>DeleteObject Bucket Key\<close>,
  \<open>HeadObject Bucket Key\<close>.
\<close>

fun call_bucket :: "s3_call \<Rightarrow> string" where
  "call_bucket (UploadFile f b k ea) = b"
| "call_bucket (ListObjectsV2 b p n) = b"
| "call_bucket (GeneratePresignedUrl m b k e) = b"
| "call_bucket (DeleteObject b k) = b"
| "call_bucket (HeadObject b k) = b"

text \<open>
  How a call of the collaborator ends: it returns, it raises a \<open>ClientError\<close>, or it
  raises something else.
\<close>

datatype 'a s3_result = Returns 'a | Raises_ClientError ClientError | Raises_other string

text \<open>
  One entry of \<open>Contents\<close> in a listing and the listing itself, as dicts restricted to
  the keys the wrapper reads; \<open>None\<close> is a missing key.
\<close>

record s3_object =
  Key :: "string option"
  Size :: "int option"
  LastModified :: "datetime option"
  ETag :: "string option"

record list_response =
  Contents :: "s3_object list option"

text \<open>
  The five methods of the handle. Each takes its arguments and the remote state \<open>'r\<close>
  (the bucket store, the network, the clock) and gives the outcome and the new remote
  state.
\<close>

record 'r s3_client =
  upload_file :: "string \<Rightarrow> string \<Rightarrow> string \<Rightarrow> dict \<Rightarrow> 'r \<Rightarrow> unit s3_result \<times> 'r"
  list_objects_v2 :: "string \<Rightarrow> string \<Rightarrow> int \<Rightarrow> 'r \<Rightarrow> list_response s3_result \<times> 'r"
  generate_presigned_url :: "string \<Rightarrow> string \<Rightarrow> string \<Rightarrow> int \<Rightarrow> 'r \<Rightarrow> string s3_result \<times> 'r"
  delete_object :: "string \<Rightarrow> string \<Rightarrow> 'r \<Rightarrow> unit s3_result \<times> 'r"
  head_object :: "string \<Rightarrow> string \<Rightarrow> 'r \<Rightarrow> unit s3_result \<times> 'r"

section \<open>client.py: the client and its state\<close>

text \<open>The object \<open>self\<close>: the configuration and the handle built at construction.\<close>

record 'r ObjectsClient =
  config :: ObjectsConfig
  s3 :: "'r s3_client"

text \<open>
  Everything a method can read or change: \<open>self\<close>, the regular files of the local file
  system (what \<open>os.path.isfile\<close> answers), the remote state, and the requests sent to
  the collaborator so far, oldest first.
\<close>

record 'r state =
  self :: "'r ObjectsClient"
  files :: "string set"
  remote :: 'r
  calls :: "s3_call list"

definition os_path_isfile :: "'r state \<Rightarrow> string \<Rightarrow> bool" where
  "os_path_isfile s p = (p \<in> files s)"

text \<open>
  \<open>self._s3.m(...)\<close>: the method of the handle runs on the remote state, and the request
  is recorded with exactly the arguments the method received.
\<close>

definition s3_upload_file ::
  "string \<Rightarrow> string \<Rightarrow> string \<Rightarrow> dict \<Rightarrow> 'r state \<Rightarrow> unit s3_result \<times> 'r state" where
  "s3_upload_file f b k ea s =
     (let (out, r) = upload_file (s3 (self s)) f b k ea (remote s)
      in (out, s\<lparr>remote := r, calls := calls s @ [UploadFile f b k ea]\<rparr>))"

definition s3_list_objects_v2 ::
  "string \<Rightarrow> string \<Rightarrow> int \<Rightarrow> 'r state \<Rightarrow> list_response s3_result \<times> 'r state" where
  "s3_list_objects_v2 b p n s =
     (let (out, r) = list_objects_v2 (s3 (self s)) b p n (remote s)
      in (out, s\<lparr>remote := r, calls := calls s @ [ListObjectsV2 b p n]\<rparr>))"

definition s3_generate_presigned_url ::
  "string \<Rightarrow> string \<Rightarrow> string \<Rightarrow> int \<Rightarrow> 'r state \<Rightarrow> string s3_result \<times> 'r state" where
  "s3_generate_presigned_url m b k e s =
     (let (out, r) = generate_presigned_url (s3 (self s)) m b k e (remote s)
      in (out, s\<lparr>remote := r, calls := calls s @ [GeneratePresignedUrl m b k e]\<rparr>))"

definition s3_delete_object ::
  "string \<Rightarrow> string \<Rightarrow> 'r state \<Rightarrow> unit s3_result \<times> 'r state" where
  "s3_delete_object b k s =
     (let (out, r) = delete_object (s3 (self s)) b k (remote s)
      in (out, s\<lparr>remote := r, calls := calls s @ [DeleteObject b k]\<rparr>))"

definition s3_head_object ::
  "string \<Rightarrow> string \<Rightarrow> 'r state \<Rightarrow> unit s3_result \<times> 'r state" where
  "s3_head_object b k s =
     (let (out, r) = head_object (s3 (self s)) b k (remote s)
      in (out, s\<lparr>remote := r, calls := calls s @ [HeadObject b k]\<rparr>))"

section \<open>client.py: the operations\<close>

text \<open>\<open>_parse_client_error\<close>: both lookups have a default.\<close>

definition parse_client_error :: "ClientError \<Rightarrow> string \<times> string" where
  "parse_client_error error =
     (let resp = (case response error ''Error'' of None \<Rightarrow> Map.empty | Some d \<Rightarrow> d)
      in (case resp ''Code'' of None \<Rightarrow> ''Unknown'' | Some c \<Rightarrow> c,
          case resp ''Message'' of None \<Rightarrow> ''(no message)'' | Some m \<Rightarrow> m))"

text \<open>
  The \<open>except ClientError\<close> block that four of the five operations share but for the
  class and the text before the collaborator's message.
\<close>

definition translate :: "exc_class \<Rightarrow> string \<Rightarrow> ClientError \<Rightarrow> exn" where
  "translate c pre exc =
     (let (code, msg) = parse_client_error exc
      in Objects_exc c (pre @ msg) code (Some exc))"

definition upload ::
  "string \<Rightarrow> string option \<Rightarrow> dict option \<Rightarrow> 'r state \<Rightarrow> (exn + string) \<times> 'r state" where
  "upload local_path object_key extra_args s =
     (if \<not> os_path_isfile s local_path
      then (Inl (FileNotFoundError (''File not found: '' @ local_path)), s)
      else
        let k = str_or object_key (basename local_path) in
        case s3_upload_file local_path (bucket (config (self s))) k (dict_or_empty extra_args) s of
          (Raises_ClientError exc, s') \<Rightarrow>
            (Inl (translate UploadError (''Upload failed for '' @ [CHR 0x27] @ local_path @ [CHR 0x27] @ '': '') exc), s')
        | (Raises_other x, s') \<Rightarrow> (Inl (Uncaught x), s')
        | (Returns u, s') \<Rightarrow> (Inr k, s'))"

text \<open>
  The list comprehension of \<open>list\<close>, one entry at a time: \<open>obj["Key"]\<close>, \<open>obj["Size"]\<close>
  and \<open>obj["LastModified"]\<close> are read in this order and raise \<open>KeyError\<close> when missing;
  \<open>ETag\<close> has the default \<open>""\<close> and loses its surrounding double quotes.
\<close>

definition object_info :: "s3_object \<Rightarrow> exn + ObjectInfo" where
  "object_info obj =
     (case Key obj of None \<Rightarrow> Inl (KeyError ''Key'') | Some k \<Rightarrow>
      case Size obj of None \<Rightarrow> Inl (KeyError ''Size'') | Some n \<Rightarrow>
      case LastModified obj of None \<Rightarrow> Inl (KeyError ''LastModified'') | Some t \<Rightarrow>
        Inr \<lparr>key = k, size' = n, last_modified = str_datetime t,
             etag = strip (CHR 0x22) (case ETag obj of None \<Rightarrow> [] | Some e \<Rightarrow> e)\<rparr>)"

fun object_infos :: "s3_object list \<Rightarrow> exn + ObjectInfo list" where
  "object_infos [] = Inr []"
| "object_infos (obj # objs) =
     (case object_info obj of
        Inl e \<Rightarrow> Inl e
      | Inr i \<Rightarrow> (case object_infos objs of Inl e \<Rightarrow> Inl e | Inr is \<Rightarrow> Inr (i # is)))"

text \<open>\<open>response.get("Contents", [])\<close>.\<close>

definition contents_of :: "list_response \<Rightarrow> s3_object list" where
  "contents_of resp = (case Contents resp of None \<Rightarrow> [] | Some objs \<Rightarrow> objs)"

definition list ::
  "string \<Rightarrow> int \<Rightarrow> 'r state \<Rightarrow> (exn + ObjectInfo list) \<times> 'r state" where
  "list prefix' max_keys s =
     (case s3_list_objects_v2 (bucket (config (self s))) prefix' max_keys s of
        (Raises_ClientError exc, s') \<Rightarrow>
          (Inl (translate ListError ''Failed to list objects: '' exc), s')
      | (Raises_other x, s') \<Rightarrow> (Inl (Uncaught x), s')
      | (Returns resp, s') \<Rightarrow>
          (object_infos (contents_of resp), s'))"

text \<open>\<open>list_keys\<close> calls \<open>self.list(prefix=prefix)\<close>, so with the default \<open>max_keys=1000\<close>.\<close>

definition list_keys :: "string \<Rightarrow> 'r state \<Rightarrow> (exn + string list) \<times> 'r state" where
  "list_keys prefix' s =
     (case list prefix' 1000 s of
        (Inl e, s') \<Rightarrow> (Inl e, s')
      | (Inr objs, s') \<Rightarrow> (Inr (map key objs), s'))"

definition get_download_url ::
  "string \<Rightarrow> int option \<Rightarrow> 'r state \<Rightarrow> (exn + string) \<times> 'r state" where
  "get_download_url object_key expires_in s =
     (let expiry = (case expires_in of Some e \<Rightarrow> e | None \<Rightarrow> default_expiry (config (self s))) in
      case s3_generate_presigned_url ''get_object'' (bucket (config (self s))) object_key expiry s of
        (Raises_ClientError exc, s') \<Rightarrow>
          (Inl (translate DownloadError
                  (''Failed to generate URL for '' @ [CHR 0x27] @ object_key @ [CHR 0x27] @ '': '') exc), s')
      | (Raises_other x, s') \<Rightarrow> (Inl (Uncaught x), s')
      | (Returns url, s') \<Rightarrow> (Inr url, s'))"

definition delete :: "string \<Rightarrow> 'r state \<Rightarrow> (exn + unit) \<times> 'r state" where
  "delete object_key s =
     (case s3_delete_object (bucket (config (self s))) object_key s of
        (Raises_ClientError exc, s') \<Rightarrow>
          (Inl (translate ObjectsError
                  (''Failed to delete '' @ [CHR 0x27] @ object_key @ [CHR 0x27] @ '': '') exc), s')
      | (Raises_other x, s') \<Rightarrow> (Inl (Uncaught x), s')
      | (Returns u, s') \<Rightarrow> (Inr (), s'))"

text \<open>
  \<open>exc.response["Error"]["Code"]\<close>, read by subscript: a missing \<open>Error\<close> or \<open>Code\<close>
  raises \<open>KeyError\<close>.
\<close>

definition error_code :: "ClientError \<Rightarrow> exn + string" where
  "error_code exc =
     (case response exc ''Error'' of
        None \<Rightarrow> Inl (KeyError ''Error'')
      | Some d \<Rightarrow> (case d ''Code'' of None \<Rightarrow> Inl (KeyError ''Code'') | Some c \<Rightarrow> Inr c))"

text \<open>
  \<open>object_exists\<close> tests the subscripted code against the two not-found codes before
  it translates the error.
\<close>

definition object_exists :: "string \<Rightarrow> 'r state \<Rightarrow> (exn + bool) \<times> 'r state" where
  "object_exists object_key s =
     (case s3_head_object (bucket (config (self s))) object_key s of
        (Returns u, s') \<Rightarrow> (Inr True, s')
      | (Raises_other x, s') \<Rightarrow> (Inl (Uncaught x), s')
      | (Raises_ClientError exc, s') \<Rightarrow>
          (case error_code exc of
             Inl e \<Rightarrow> (Inl e, s')
           | Inr c \<Rightarrow>
               if c = ''404'' \<or> c = ''NoSuchKey'' then (Inr False, s')
               else (Inl (translate ObjectsError
                            (''Failed to check existence of '' @ [CHR 0x27] @ object_key @ [CHR 0x27] @ '': '')
                            exc), s')))"

section \<open>Sequences of calls on one client\<close>

text \<open>
  The public operations as values, and a caller that performs them one after the other
  on the same client, going on after an exception as after a return.
\<close>

datatype operation =
    Upload string "string option" "dict option"
  | List string int
  | ListKeys string
  | GetDownloadUrl string "int option"
  | Delete string
  | ObjectExists string

fun perform :: "operation \<Rightarrow> 'r state \<Rightarrow> 'r state" where
  "perform (Upload local_path object_key extra_args) s = snd (upload local_path object_key extra_args s)"
| "perform (List prefix' max_keys) s = snd (list prefix' max_keys s)"
| "perform (ListKeys prefix') s = snd (list_keys prefix' s)"
| "perform (GetDownloadUrl object_key expires_in) s = snd (get_download_url object_key expires_in s)"
| "perform (Delete object_key) s = snd (delete object_key s)"
| "perform (ObjectExists object_key) s = snd (object_exists object_key s)"

fun perform_all :: "operation list \<Rightarrow> 'r state \<Rightarrow> 'r state" where
  "perform_all [] s = s"
| "perform_all (x # xs) s = perform_all xs (perform x s)"

section \<open>Vocabulary of the properties\<close>

text \<open>A call of the collaborator failed: it raised, whatever it raised.\<close>

definition failed :: "'a s3_result \<Rightarrow> bool" where
  "failed out = (case out of Returns v \<Rightarrow> False | Raises_ClientError exc \<Rightarrow> True | Raises_other x \<Rightarrow> True)"

text \<open>
  The collaborator reported not-found: it raised a \<open>ClientError\<close> whose response holds,
  under \<open>Error\<close>, the \<open>Code\<close> \<open>404\<close> or \<open>NoSuchKey\<close>.
\<close>

definition not_found :: "'a s3_result \<Rightarrow> bool" where
  "not_found out =
     (case out of
        Raises_ClientError exc \<Rightarrow>
          (case response exc ''Error'' of
             None \<Rightarrow> False
           | Some d \<Rightarrow> d ''Code'' = Some ''404'' \<or> d ''Code'' = Some ''NoSuchKey'')
      | Returns v \<Rightarrow> False
      | Raises_other x \<Rightarrow> False)"

text \<open>
  The response of a \<open>ClientError\<close> carries no field \<open>f\<close>: it has no \<open>Error\<close> entry, or
  the \<open>Error\<close> dict has no key \<open>f\<close>.
\<close>

definition lacks :: "string \<Rightarrow> ClientError \<Rightarrow> bool" where
  "lacks f exc = (case response exc ''Error'' of None \<Rightarrow> True | Some d \<Rightarrow> d f = None)"

text \<open>The requests sent to the collaborator on the way from state \<open>s\<close> to state \<open>s'\<close>.\<close>

definition new_calls :: "'r state \<Rightarrow> 'r state \<Rightarrow> s3_call list" where
  "new_calls s s' = drop (length (calls s)) (calls s')"

text \<open>
  From \<open>s\<close> to \<open>s'\<close> the object \<open>self\<close> is the same, requests were only added, and every
  added request names the bucket of the configuration.
\<close>

definition same_bucket :: "'r state \<Rightarrow> 'r state \<Rightarrow> bool" where
  "same_bucket s s' \<longleftrightarrow>
     self s' = self s \<and> calls s' = calls s @ new_calls s s'
     \<and> (\<forall>c \<in> set (new_calls s s'). call_bucket c = bucket (config (self s)))"

text \<open>
  What the wrapper expects of an S3-compatible handle when it lists: a listing that
  returns holds at most \<open>MaxKeys\<close> objects, and the key of each starts with \<open>Prefix\<close>.
\<close>

definition honours_listing :: "'r s3_client \<Rightarrow> bool" where
  "honours_listing h \<longleftrightarrow>
     (\<forall>b p n r resp.
        fst (list_objects_v2 h b p n r) = Returns resp \<longrightarrow>
          int (length (contents_of resp)) \<le> n
          \<and> (\<forall>obj \<in> set (contents_of resp). \<forall>k. Key obj = Some k \<longrightarrow> prefix p k))"

section \<open>Concrete collaborators, for instances of the theorems\<close>

text \<open>
  A collaborator without a state of its own that answers every call of a method with
  the same outcome, and a client for the bucket \<open>photos\<close> on a machine whose only
  regular file is \<open>./a.jpg\<close>.
\<close>

definition fixed_s3 ::
  "unit s3_result \<Rightarrow> list_response s3_result \<Rightarrow> string s3_result \<Rightarrow> unit s3_result \<Rightarrow>
   unit s3_result \<Rightarrow> unit s3_client" where
  "fixed_s3 up ls url del hd' =
     \<lparr>upload_file = (\<lambda>f b k ea r. (up, r)),
      list_objects_v2 = (\<lambda>b p n r. (ls, r)),
      generate_presigned_url = (\<lambda>m b k e r. (url, r)),
      delete_object = (\<lambda>b k r. (del, r)),
      head_object = (\<lambda>b k r. (hd', r))\<rparr>"

definition photos_state :: "unit s3_client \<Rightarrow> unit state" where
  "photos_state h =
     \<lparr>self = \<lparr>config = ObjectsConfig_init ''AK'' ''SK'' ''photos'', s3 = h\<rparr>,
      files = {''./a.jpg''}, remote = (), calls = []\<rparr>"

text \<open>A collaborator on which every call succeeds; its listing holds two objects.\<close>

definition two_objects :: "s3_object list" where
  "two_objects =
     [\<lparr>Key = Some ''a.jpg'', Size = Some 3, LastModified = Some (Datetime ''2024-01-01 00:00:00+00:00''),
       ETag = Some ([CHR 0x22] @ ''abc'' @ [CHR 0x22])\<rparr>,
      \<lparr>Key = Some ''b.jpg'', Size = Some 5, LastModified = Some (Datetime ''2024-01-02 00:00:00+00:00''),
       ETag = None\<rparr>]"

definition ok_s3 :: "unit s3_client" where
  "ok_s3 = fixed_s3 (Returns ()) (Returns \<lparr>Contents = Some two_objects\<rparr>)
             (Returns ''https://s3.nevaobjects.id/photos/a.jpg?sig'') (Returns ()) (Returns ())"

text \<open>A collaborator on which every call raises the \<open>ClientError\<close> given.\<close>

definition failing_s3 :: "ClientError \<Rightarrow> unit s3_client" where
  "failing_s3 exc =
     fixed_s3 (Raises_ClientError exc) (Raises_ClientError exc) (Raises_ClientError exc)
       (Raises_ClientError exc) (Raises_ClientError exc)"

definition error_response :: "string \<Rightarrow> string \<Rightarrow> ClientError" where
  "error_response c m = ClientError [''Error'' \<mapsto> [''Code'' \<mapsto> c, ''Message'' \<mapsto> m]]"


text \<open>
  A collaborator that holds a fixed sequence of objects and lists them as S3 does: the
  objects whose key starts with the prefix, the first \<open>MaxKeys\<close> of them; a negative
  \<open>MaxKeys\<close> is refused. Its other calls succeed.
\<close>

definition under_prefix :: "string \<Rightarrow> s3_object \<Rightarrow> bool" where
  "under_prefix p obj = (case Key obj of None \<Rightarrow> False | Some k \<Rightarrow> prefix p k)"

definition store_s3 :: "s3_object list \<Rightarrow> unit s3_client" where
  "store_s3 objs =
     \<lparr>upload_file = (\<lambda>f b k ea r. (Returns (), r)),
      list_objects_v2 = (\<lambda>b p n r.
         (if n < 0 then Raises_ClientError (error_response ''InvalidArgument'' ''max-keys is negative'')
          else Returns \<lparr>Contents = Some (take (nat n) (filter (under_prefix p) objs))\<rparr>, r)),
      generate_presigned_url = (\<lambda>m b k e r. (Returns [], r)),
      delete_object = (\<lambda>b k r. (Returns (), r)),
      head_object = (\<lambda>b k r. (Returns (), r))\<rparr>"

section \<open>The calls of the handle\<close>

text \<open>What a call of the handle returns and how it leaves the state.\<close>

lemma fst_s3_upload_file:
  "fst (s3_upload_file f b k ea s) = fst (upload_file (s3 (self s)) f b k ea (remote s))"
  by (simp add: s3_upload_file_def split: prod.splits)

lemma snd_s3_upload_file:
  "snd (s3_upload_file f b k ea s) =
     s\<lparr>remote := snd (upload_file (s3 (self s)) f b k ea (remote s)),
       calls := calls s @ [UploadFile f b k ea]\<rparr>"
  by (simp add: s3_upload_file_def split: prod.splits)

lemma fst_s3_list_objects_v2:
  "fst (s3_list_objects_v2 b p n s) = fst (list_objects_v2 (s3 (self s)) b p n (remote s))"
  by (simp add: s3_list_objects_v2_def split: prod.splits)

lemma snd_s3_list_objects_v2:
  "snd (s3_list_objects_v2 b p n s) =
     s\<lparr>remote := snd (list_objects_v2 (s3 (self s)) b p n (remote s)),
       calls := calls s @ [ListObjectsV2 b p n]\<rparr>"
  by (simp add: s3_list_objects_v2_def split: prod.splits)

lemma fst_s3_generate_presigned_url:
  "fst (s3_generate_presigned_url m b k e s) =
     fst (generate_presigned_url (s3 (self s)) m b k e (remote s))"
  by (simp add: s3_generate_presigned_url_def split: prod.splits)

lemma snd_s3_generate_presigned_url:
  "snd (s3_generate_presigned_url m b k e s) =
     s\<lparr>remote := snd (generate_presigned_url (s3 (self s)) m b k e (remote s)),
       calls := calls s @ [GeneratePresignedUrl m b k e]\<rparr>"
  by (simp add: s3_generate_presigned_url_def split: prod.splits)

lemma fst_s3_delete_object:
  "fst (s3_delete_object b k s) = fst (delete_object (s3 (self s)) b k (remote s))"
  by (simp add: s3_delete_object_def split: prod.splits)

lemma snd_s3_delete_object:
  "snd (s3_delete_object b k s) =
     s\<lparr>remote := snd (delete_object (s3 (self s)) b k (remote s)),
       calls := calls s @ [DeleteObject b k]\<rparr>"
  by (simp add: s3_delete_object_def split: prod.splits)

lemma fst_s3_head_object:
  "fst (s3_head_object b k s) = fst (head_object (s3 (self s)) b k (remote s))"
  by (simp add: s3_head_object_def split: prod.splits)

lemma snd_s3_head_object:
  "snd (s3_head_object b k s) =
     s\<lparr>remote := snd (head_object (s3 (self s)) b k (remote s)),
       calls := calls s @ [HeadObject b k]\<rparr>"
  by (simp add: s3_head_object_def split: prod.splits)

section \<open>Each operation in terms of its one call\<close>

lemma snd_upload:
  "os_path_isfile s lp \<Longrightarrow>
   snd (upload lp ok ea s) =
     snd (s3_upload_file lp (bucket (config (self s))) (str_or ok (basename lp)) (dict_or_empty ea) s)"
  by (simp add: upload_def Let_def split: prod.splits s3_result.splits)

lemma snd_upload_if:
  "snd (upload lp ok ea s) =
     (if os_path_isfile s lp
      then snd (s3_upload_file lp (bucket (config (self s))) (str_or ok (basename lp)) (dict_or_empty ea) s)
      else s)"
  by (simp add: snd_upload) (simp add: upload_def)

lemma fst_upload:
  "os_path_isfile s lp \<Longrightarrow>
   fst (upload lp ok ea s) =
     (case fst (s3_upload_file lp (bucket (config (self s))) (str_or ok (basename lp)) (dict_or_empty ea) s) of
        Returns u \<Rightarrow> Inr (str_or ok (basename lp))
      | Raises_ClientError exc \<Rightarrow>
          Inl (translate UploadError (''Upload failed for '' @ [CHR 0x27] @ lp @ [CHR 0x27] @ '': '') exc)
      | Raises_other x \<Rightarrow> Inl (Uncaught x))"
  by (simp add: upload_def Let_def split: prod.splits s3_result.splits)

lemma snd_list:
  "snd (list p n s) = snd (s3_list_objects_v2 (bucket (config (self s))) p n s)"
  by (simp add: list_def split: prod.splits s3_result.splits)

lemma fst_list:
  "fst (list p n s) =
     (case fst (s3_list_objects_v2 (bucket (config (self s))) p n s) of
        Returns resp \<Rightarrow> object_infos (contents_of resp)
      | Raises_ClientError exc \<Rightarrow> Inl (translate ListError ''Failed to list objects: '' exc)
      | Raises_other x \<Rightarrow> Inl (Uncaught x))"
  by (simp add: list_def split: prod.splits s3_result.splits)

lemma snd_list_keys: "snd (list_keys p s) = snd (list p 1000 s)"
  by (simp add: list_keys_def split: prod.splits sum.splits)

lemma fst_list_keys:
  "fst (list_keys p s) = (case fst (list p 1000 s) of Inl e \<Rightarrow> Inl e | Inr objs \<Rightarrow> Inr (map key objs))"
  by (simp add: list_keys_def split: prod.splits sum.splits)

lemma snd_get_download_url:
  "snd (get_download_url k e s) =
     snd (s3_generate_presigned_url ''get_object'' (bucket (config (self s))) k
            (case e of Some v \<Rightarrow> v | None \<Rightarrow> default_expiry (config (self s))) s)"
  by (simp add: get_download_url_def Let_def split: prod.splits s3_result.splits)

lemma fst_get_download_url:
  "fst (get_download_url k e s) =
     (case fst (s3_generate_presigned_url ''get_object'' (bucket (config (self s))) k
            (case e of Some v \<Rightarrow> v | None \<Rightarrow> default_expiry (config (self s))) s) of
        Returns url \<Rightarrow> Inr url
      | Raises_ClientError exc \<Rightarrow>
          Inl (translate DownloadError
                 (''Failed to generate URL for '' @ [CHR 0x27] @ k @ [CHR 0x27] @ '': '') exc)
      | Raises_other x \<Rightarrow> Inl (Uncaught x))"
  by (simp add: get_download_url_def Let_def split: prod.splits s3_result.splits)

lemma snd_delete:
  "snd (delete k s) = snd (s3_delete_object (bucket (config (self s))) k s)"
  by (simp add: delete_def split: prod.splits s3_result.splits)

lemma fst_delete:
  "fst (delete k s) =
     (case fst (s3_delete_object (bucket (config (self s))) k s) of
        Returns u \<Rightarrow> Inr ()
      | Raises_ClientError exc \<Rightarrow>
          Inl (translate ObjectsError (''Failed to delete '' @ [CHR 0x27] @ k @ [CHR 0x27] @ '': '') exc)
      | Raises_other x \<Rightarrow> Inl (Uncaught x))"
  by (simp add: delete_def split: prod.splits s3_result.splits)

lemma snd_object_exists:
  "snd (object_exists k s) = snd (s3_head_object (bucket (config (self s))) k s)"
  by (simp add: object_exists_def split: prod.splits s3_result.splits sum.splits)

lemma fst_object_exists:
  "fst (object_exists k s) =
     (case fst (s3_head_object (bucket (config (self s))) k s) of
        Returns u \<Rightarrow> Inr True
      | Raises_other x \<Rightarrow> Inl (Uncaught x)
      | Raises_ClientError exc \<Rightarrow>
          (case error_code exc of
             Inl e \<Rightarrow> Inl e
           | Inr c \<Rightarrow>
               if c = ''404'' \<or> c = ''NoSuchKey'' then Inr False
               else Inl (translate ObjectsError
                           (''Failed to check existence of '' @ [CHR 0x27] @ k @ [CHR 0x27] @ '': '')
                           exc)))"
  by (simp add: object_exists_def split: prod.splits s3_result.splits sum.splits)

section \<open>Error translation\<close>

lemma translate_eq:
  "translate c pre exc =
     Objects_exc c (pre @ snd (parse_client_error exc)) (fst (parse_client_error exc)) (Some exc)"
  by (simp add: translate_def split: prod.splits)

lemma error_code_Inr:
  "error_code exc = Inr c \<longleftrightarrow> (\<exists>d. response exc ''Error'' = Some d \<and> d ''Code'' = Some c)"
  by (auto simp: error_code_def split: option.splits)

lemma parse_code:
  "response exc ''Error'' = Some d \<Longrightarrow> d ''Code'' = Some c \<Longrightarrow> fst (parse_client_error exc) = c"
  by (simp add: parse_client_error_def)

lemma parse_lacks_Code: "lacks ''Code'' exc \<Longrightarrow> fst (parse_client_error exc) = ''Unknown''"
  by (auto simp: lacks_def parse_client_error_def split: option.splits)

lemma parse_lacks_Message: "lacks ''Message'' exc \<Longrightarrow> snd (parse_client_error exc) = ''(no message)''"
  by (auto simp: lacks_def parse_client_error_def split: option.splits)

lemma upload_translates:
  "os_path_isfile s lp \<Longrightarrow>
   fst (upload_file (s3 (self s)) lp (bucket (config (self s))) (str_or ok (basename lp))
          (dict_or_empty ea) (remote s)) = Raises_ClientError exc \<Longrightarrow>
   fst (upload lp ok ea s) =
     Inl (translate UploadError (''Upload failed for '' @ [CHR 0x27] @ lp @ [CHR 0x27] @ '': '') exc)"
  by (simp add: fst_upload fst_s3_upload_file)

lemma list_translates:
  "fst (list_objects_v2 (s3 (self s)) (bucket (config (self s))) p n (remote s)) = Raises_ClientError exc \<Longrightarrow>
   fst (list p n s) = Inl (translate ListError ''Failed to list objects: '' exc)"
  by (simp add: fst_list fst_s3_list_objects_v2)

lemma get_download_url_translates:
  "fst (generate_presigned_url (s3 (self s)) ''get_object'' (bucket (config (self s))) k
          (case e of Some v \<Rightarrow> v | None \<Rightarrow> default_expiry (config (self s))) (remote s)) =
     Raises_ClientError exc \<Longrightarrow>
   fst (get_download_url k e s) =
     Inl (translate DownloadError (''Failed to generate URL for '' @ [CHR 0x27] @ k @ [CHR 0x27] @ '': '') exc)"
  by (simp add: fst_get_download_url fst_s3_generate_presigned_url)

lemma delete_translates:
  "fst (delete_object (s3 (self s)) (bucket (config (self s))) k (remote s)) = Raises_ClientError exc \<Longrightarrow>
   fst (delete k s) =
     Inl (translate ObjectsError (''Failed to delete '' @ [CHR 0x27] @ k @ [CHR 0x27] @ '': '') exc)"
  by (simp add: fst_delete fst_s3_delete_object)

lemma object_exists_translates:
  "fst (head_object (s3 (self s)) (bucket (config (self s))) k (remote s)) = Raises_ClientError exc \<Longrightarrow>
   fst (object_exists k s) = Inl e \<Longrightarrow> is_ObjectsError e \<Longrightarrow>
   e = translate ObjectsError (''Failed to check existence of '' @ [CHR 0x27] @ k @ [CHR 0x27] @ '': '') exc"
  by (auto simp: fst_object_exists fst_s3_head_object error_code_def
        split: option.splits if_splits)

lemma object_exists_translates_some:
  "fst (head_object (s3 (self s)) (bucket (config (self s))) k (remote s)) = Raises_ClientError exc \<Longrightarrow>
   response exc ''Error'' = Some d \<Longrightarrow> d ''Code'' = Some c \<Longrightarrow> c \<noteq> ''404'' \<Longrightarrow> c \<noteq> ''NoSuchKey'' \<Longrightarrow>
   fst (object_exists k s) =
     Inl (translate ObjectsError (''Failed to check existence of '' @ [CHR 0x27] @ k @ [CHR 0x27] @ '': '') exc)"
  by (simp add: fst_object_exists fst_s3_head_object error_code_def)

text \<open>
  An error without a \<open>Code\<close> never reaches the translation in \<open>object_exists\<close>: the
  subscript of the not-found test raises \<open>KeyError\<close> first.
\<close>

lemma object_exists_without_code:
  "fst (head_object (s3 (self s)) (bucket (config (self s))) k (remote s)) = Raises_ClientError exc \<Longrightarrow>
   lacks ''Code'' exc \<Longrightarrow>
   \<exists>f. fst (object_exists k s) = Inl (KeyError f)"
  by (auto simp: fst_object_exists fst_s3_head_object error_code_def lacks_def split: option.splits)

section \<open>Failures of the collaborator are raised\<close>

lemma upload_propagates:
  "os_path_isfile s lp \<Longrightarrow>
   failed (fst (upload_file (s3 (self s)) lp (bucket (config (self s))) (str_or ok (basename lp))
                  (dict_or_empty ea) (remote s))) \<Longrightarrow>
   isl (fst (upload lp ok ea s))"
  by (simp add: fst_upload fst_s3_upload_file failed_def split: s3_result.splits)

lemma list_propagates:
  "failed (fst (list_objects_v2 (s3 (self s)) (bucket (config (self s))) p n (remote s))) \<Longrightarrow>
   isl (fst (list p n s))"
  by (simp add: fst_list fst_s3_list_objects_v2 failed_def split: s3_result.splits)

lemma list_keys_propagates:
  "failed (fst (list_objects_v2 (s3 (self s)) (bucket (config (self s))) p 1000 (remote s))) \<Longrightarrow>
   isl (fst (list_keys p s))"
  using list_propagates [of s p 1000] by (auto simp: fst_list_keys isl_def)

lemma get_download_url_propagates:
  "failed (fst (generate_presigned_url (s3 (self s)) ''get_object'' (bucket (config (self s))) k
                  (case e of Some v \<Rightarrow> v | None \<Rightarrow> default_expiry (config (self s))) (remote s))) \<Longrightarrow>
   isl (fst (get_download_url k e s))"
  by (simp add: fst_get_download_url fst_s3_generate_presigned_url failed_def split: s3_result.splits)

lemma delete_propagates:
  "failed (fst (delete_object (s3 (self s)) (bucket (config (self s))) k (remote s))) \<Longrightarrow>
   isl (fst (delete k s))"
  by (simp add: fst_delete fst_s3_delete_object failed_def split: s3_result.splits)

lemma object_exists_False:
  "fst (object_exists k s) = Inr False \<longleftrightarrow>
   not_found (fst (head_object (s3 (self s)) (bucket (config (self s))) k (remote s)))"
  by (auto simp: fst_object_exists fst_s3_head_object not_found_def error_code_def translate_eq
        split: s3_result.splits option.splits sum.splits if_splits)

lemma object_exists_other_code:
  "fst (head_object (s3 (self s)) (bucket (config (self s))) k (remote s)) = Raises_ClientError exc \<Longrightarrow>
   response exc ''Error'' = Some d \<Longrightarrow> d ''Code'' = Some c \<Longrightarrow> c \<noteq> ''404'' \<Longrightarrow> c \<noteq> ''NoSuchKey'' \<Longrightarrow>
   fst (object_exists k s) =
     Inl (Objects_exc ObjectsError
            (''Failed to check existence of '' @ [CHR 0x27] @ k @ [CHR 0x27] @ '': '' @ snd (parse_client_error exc))
            c (Some exc))"
  by (simp add: fst_object_exists fst_s3_head_object error_code_def translate_eq parse_code)

lemma object_exists_absorbs:
  "failed (fst (head_object (s3 (self s)) (bucket (config (self s))) k (remote s))) \<Longrightarrow>
   \<not> isl (fst (object_exists k s)) \<Longrightarrow>
   not_found (fst (head_object (s3 (self s)) (bucket (config (self s))) k (remote s)))"
  by (auto simp: fst_object_exists fst_s3_head_object not_found_def failed_def error_code_def translate_eq
        split: s3_result.splits option.splits sum.splits if_splits)

section \<open>Listings\<close>

lemma object_info_key: "object_info obj = Inr i \<Longrightarrow> Key obj = Some (key i)"
  by (auto simp: object_info_def split: option.splits)

lemma object_infos_keys:
  "object_infos objs = Inr infos \<Longrightarrow> map Key objs = map (\<lambda>i. Some (key i)) infos"
proof (induction objs arbitrary: infos)
  case Nil
  then show ?case by simp
next
  case (Cons obj objs)
  then show ?case
    by (auto split: sum.splits dest: object_info_key)
qed

lemma object_infos_length: "object_infos objs = Inr infos \<Longrightarrow> length infos = length objs"
  using object_infos_keys [of objs infos] by (metis length_map)

lemma object_infos_complete:
  "\<forall>obj \<in> set objs. Key obj \<noteq> None \<and> Size obj \<noteq> None \<and> LastModified obj \<noteq> None \<Longrightarrow>
   \<exists>infos. object_infos objs = Inr infos"
  by (induction objs) (auto simp: object_info_def split: option.splits)

lemma object_infos_prefix:
  assumes "object_infos objs = Inr infos"
    and "\<forall>obj \<in> set objs. \<forall>k. Key obj = Some k \<longrightarrow> prefix p k"
  shows "\<forall>i \<in> set infos. prefix p (key i)"
proof
  fix i assume "i \<in> set infos"
  then have "Some (key i) \<in> set (map (\<lambda>i. Some (key i)) infos)" by force
  then have "Some (key i) \<in> set (map Key objs)"
    using object_infos_keys [OF assms(1)] by simp
  then show "prefix p (key i)" using assms(2) by auto
qed

text \<open>
  \<open>list\<close> sends one request with \<open>prefix\<close> and \<open>max_keys\<close> unchanged and neither
  truncates nor filters the answer: it returns one entry for each object of the answer's
  \<open>Contents\<close>, in order and with the same key.
\<close>

lemma list_follows_response:
  assumes "fst (list_objects_v2 (s3 (self s)) (bucket (config (self s))) prefix' max_keys (remote s)) =
             Returns resp"
  shows "calls (snd (list prefix' max_keys s)) =
           calls s @ [ListObjectsV2 (bucket (config (self s))) prefix' max_keys]
         \<and> (\<forall>infos. fst (list prefix' max_keys s) = Inr infos \<longrightarrow>
               map Key (contents_of resp) = map (\<lambda>i. Some (key i)) infos)
         \<and> (\<forall>infos. fst (list prefix' max_keys s) = Inr infos
               \<and> int (length (contents_of resp)) \<le> max_keys
               \<and> (\<forall>obj \<in> set (contents_of resp). \<forall>k. Key obj = Some k \<longrightarrow> prefix prefix' k)
               \<longrightarrow> int (length infos) \<le> max_keys \<and> (\<forall>i \<in> set infos. prefix prefix' (key i)))
         \<and> ((\<forall>obj \<in> set (contents_of resp). Key obj \<noteq> None \<and> Size obj \<noteq> None \<and> LastModified obj \<noteq> None)
               \<longrightarrow> (\<exists>infos. fst (list prefix' max_keys s) = Inr infos))
         \<and> (contents_of resp = [] \<longrightarrow> fst (list prefix' max_keys s) = Inr [])"
proof -
  have r: "fst (list prefix' max_keys s) = object_infos (contents_of resp)"
    using assms by (simp add: fst_list fst_s3_list_objects_v2)
  show ?thesis
    unfolding r
    using object_infos_keys object_infos_length object_infos_complete object_infos_prefix
    by (auto simp: snd_list snd_s3_list_objects_v2)
qed

lemma honours_store_s3: "honours_listing (store_s3 objs)"
  by (auto simp: honours_listing_def store_s3_def contents_of_def under_prefix_def
        split: if_splits dest!: in_set_takeD)

section \<open>The configuration along a sequence of calls\<close>

lemma same_bucket_refl: "same_bucket s s"
  by (simp add: same_bucket_def new_calls_def)

lemma same_bucket_iff:
  "same_bucket s s' \<longleftrightarrow>
     self s' = self s
     \<and> (\<exists>new. calls s' = calls s @ new \<and> (\<forall>c \<in> set new. call_bucket c = bucket (config (self s))))"
  by (auto simp: same_bucket_def new_calls_def)

lemma same_bucket_trans:
  assumes "same_bucket s t" and "same_bucket t u"
  shows "same_bucket s u"
proof -
  obtain n1 where n1: "self t = self s" "calls t = calls s @ n1"
    "\<forall>c \<in> set n1. call_bucket c = bucket (config (self s))"
    using assms(1) by (auto simp: same_bucket_iff)
  obtain n2 where n2: "self u = self t" "calls u = calls t @ n2"
    "\<forall>c \<in> set n2. call_bucket c = bucket (config (self t))"
    using assms(2) by (auto simp: same_bucket_iff)
  have "calls u = calls s @ (n1 @ n2)" using n1 n2 by simp
  moreover have "\<forall>c \<in> set (n1 @ n2). call_bucket c = bucket (config (self s))"
    using n1 n2 by auto
  ultimately show ?thesis
    unfolding same_bucket_iff using n1(1) n2(1) by metis
qed

lemma same_bucket_one:
  "call_bucket c = bucket (config (self s)) \<Longrightarrow>
   same_bucket s (s\<lparr>remote := r, calls := calls s @ [c]\<rparr>)"
  by (simp add: same_bucket_def new_calls_def)

lemma perform_same_bucket: "same_bucket s (perform x s)"
proof (cases x)
  case (Upload lp ok ea)
  show ?thesis
  proof (cases "os_path_isfile s lp")
    case True
    with Upload show ?thesis by (simp add: snd_upload snd_s3_upload_file same_bucket_one)
  next
    case False
    with Upload show ?thesis by (simp add: upload_def same_bucket_refl)
  qed
next
  case (List p n)
  then show ?thesis by (simp add: snd_list snd_s3_list_objects_v2 same_bucket_one)
next
  case (ListKeys p)
  then show ?thesis by (simp add: snd_list_keys snd_list snd_s3_list_objects_v2 same_bucket_one)
next
  case (GetDownloadUrl k e)
  then show ?thesis by (simp add: snd_get_download_url snd_s3_generate_presigned_url same_bucket_one)
next
  case (Delete k)
  then show ?thesis by (simp add: snd_delete snd_s3_delete_object same_bucket_one)
next
  case (ObjectExists k)
  then show ?thesis by (simp add: snd_object_exists snd_s3_head_object same_bucket_one)
qed

lemma perform_all_same_bucket: "same_bucket s (perform_all xs s)"
proof (induction xs arbitrary: s)
  case Nil
  then show ?case by (simp add: same_bucket_refl)
next
  case (Cons x xs)
  have "same_bucket s (perform x s)" by (rule perform_same_bucket)
  moreover have "same_bucket (perform x s) (perform_all xs (perform x s))" by (rule Cons.IH)
  ultimately show ?case using same_bucket_trans by auto
qed

section \<open>What the translation gives\<close>

text \<open>
  The translated error always exists and wraps the \<open>ClientError\<close>; its code is \<open>Unknown\<close>
  when the response carries no \<open>Code\<close>, and its message ends with \<open>(no message)\<close> when
  the response carries no \<open>Message\<close>. \<open>upload\<close>, \<open>list\<close>, \<open>get_download_url\<close> and
  \<open>delete\<close> raise this translation for every \<open>ClientError\<close> of their call; every error of
  the hierarchy that \<open>object_exists\<close> raises is this translation, and it is raised for
  every error carrying a code other than the two not-found codes.
\<close>

lemma translation_defaults:
  "(lacks ''Code'' exc \<longrightarrow> code (translate c pre exc) = ''Unknown'')
   \<and> (lacks ''Message'' exc \<longrightarrow> message (translate c pre exc) = pre @ ''(no message)'')
   \<and> (\<exists>m k. translate c pre exc = Objects_exc c m k (Some exc))
   \<and> (os_path_isfile s local_path
        \<and> fst (upload_file (s3 (self s)) local_path (bucket (config (self s)))
                 (str_or key_arg (basename local_path)) (dict_or_empty extra_args) (remote s)) =
            Raises_ClientError exc
        \<longrightarrow> fst (upload local_path key_arg extra_args s) =
              Inl (translate UploadError
                     (''Upload failed for '' @ [CHR 0x27] @ local_path @ [CHR 0x27] @ '': '') exc))
   \<and> (fst (list_objects_v2 (s3 (self s)) (bucket (config (self s))) prefix' max_keys (remote s)) =
          Raises_ClientError exc
        \<longrightarrow> fst (list prefix' max_keys s) = Inl (translate ListError ''Failed to list objects: '' exc))
   \<and> (fst (generate_presigned_url (s3 (self s)) ''get_object'' (bucket (config (self s))) object_key
               (case expires_in of Some v \<Rightarrow> v | None \<Rightarrow> default_expiry (config (self s))) (remote s)) =
          Raises_ClientError exc
        \<longrightarrow> fst (get_download_url object_key expires_in s) =
              Inl (translate DownloadError
                     (''Failed to generate URL for '' @ [CHR 0x27] @ object_key @ [CHR 0x27] @ '': '') exc))
   \<and> (fst (delete_object (s3 (self s)) (bucket (config (self s))) object_key (remote s)) =
          Raises_ClientError exc
        \<longrightarrow> fst (delete object_key s) =
              Inl (translate ObjectsError
                     (''Failed to delete '' @ [CHR 0x27] @ object_key @ [CHR 0x27] @ '': '') exc))
   \<and> (\<forall>e. fst (head_object (s3 (self s)) (bucket (config (self s))) object_key (remote s)) =
              Raises_ClientError exc
            \<and> fst (object_exists object_key s) = Inl e \<and> is_ObjectsError e
        \<longrightarrow> e = translate ObjectsError
                  (''Failed to check existence of '' @ [CHR 0x27] @ object_key @ [CHR 0x27] @ '': '') exc)
   \<and> (\<forall>d k. fst (head_object (s3 (self s)) (bucket (config (self s))) object_key (remote s)) =
              Raises_ClientError exc
            \<and> response exc ''Error'' = Some d \<and> d ''Code'' = Some k \<and> k \<noteq> ''404'' \<and> k \<noteq> ''NoSuchKey''
        \<longrightarrow> fst (object_exists object_key s) =
              Inl (translate ObjectsError
                     (''Failed to check existence of '' @ [CHR 0x27] @ object_key @ [CHR 0x27] @ '': '') exc))"
proof (intro conjI allI impI)
  show "lacks ''Code'' exc \<Longrightarrow> code (translate c pre exc) = ''Unknown''"
    by (simp add: translate_eq parse_lacks_Code)
  show "lacks ''Message'' exc \<Longrightarrow> message (translate c pre exc) = pre @ ''(no message)''"
    by (simp add: translate_eq parse_lacks_Message)
  show "\<exists>m k. translate c pre exc = Objects_exc c m k (Some exc)"
    by (simp add: translate_eq)
next
  assume "os_path_isfile s local_path \<and>
    fst (upload_file (s3 (self s)) local_path (bucket (config (self s)))
           (str_or key_arg (basename local_path)) (dict_or_empty extra_args) (remote s)) =
      Raises_ClientError exc"
  then show "fst (upload local_path key_arg extra_args s) =
      Inl (translate UploadError
             (''Upload failed for '' @ [CHR 0x27] @ local_path @ [CHR 0x27] @ '': '') exc)"
    using upload_translates by blast
next
  assume "fst (list_objects_v2 (s3 (self s)) (bucket (config (self s))) prefix' max_keys (remote s)) =
      Raises_ClientError exc"
  then show "fst (list prefix' max_keys s) = Inl (translate ListError ''Failed to list objects: '' exc)"
    by (rule list_translates)
next
  assume "fst (generate_presigned_url (s3 (self s)) ''get_object'' (bucket (config (self s))) object_key
               (case expires_in of Some v \<Rightarrow> v | None \<Rightarrow> default_expiry (config (self s))) (remote s)) =
          Raises_ClientError exc"
  then show "fst (get_download_url object_key expires_in s) =
              Inl (translate DownloadError
                     (''Failed to generate URL for '' @ [CHR 0x27] @ object_key @ [CHR 0x27] @ '': '') exc)"
    by (rule get_download_url_translates)
next
  assume "fst (delete_object (s3 (self s)) (bucket (config (self s))) object_key (remote s)) =
          Raises_ClientError exc"
  then show "fst (delete object_key s) =
              Inl (translate ObjectsError
                     (''Failed to delete '' @ [CHR 0x27] @ object_key @ [CHR 0x27] @ '': '') exc)"
    by (rule delete_translates)
next
  fix e
  assume "fst (head_object (s3 (self s)) (bucket (config (self s))) object_key (remote s)) =
              Raises_ClientError exc
            \<and> fst (object_exists object_key s) = Inl e \<and> is_ObjectsError e"
  then show "e = translate ObjectsError
                  (''Failed to check existence of '' @ [CHR 0x27] @ object_key @ [CHR 0x27] @ '': '') exc"
    using object_exists_translates by blast
next
  fix d k
  assume "fst (head_object (s3 (self s)) (bucket (config (self s))) object_key (remote s)) =
              Raises_ClientError exc
            \<and> response exc ''Error'' = Some d \<and> d ''Code'' = Some k \<and> k \<noteq> ''404'' \<and> k \<noteq> ''NoSuchKey''"
  then show "fst (object_exists object_key s) =
              Inl (translate ObjectsError
                     (''Failed to check existence of '' @ [CHR 0x27] @ object_key @ [CHR 0x27] @ '': '') exc)"
    using object_exists_translates_some by blast
qed

text \<open>
  An error with an empty response on the four translating operations, and an error with
  a code but no message on \<open>object_exists\<close>.
\<close>

lemma translation_defaults_instance:
  "lacks ''Code'' (ClientError Map.empty) \<and> lacks ''Message'' (ClientError Map.empty)
   \<and> fst (upload ''./a.jpg'' None None (photos_state (failing_s3 (ClientError Map.empty)))) =
       Inl (Objects_exc UploadError (''Upload failed for '' @ [CHR 0x27] @ ''./a.jpg'' @ [CHR 0x27] @ '': (no message)'')
              ''Unknown'' (Some (ClientError Map.empty)))
   \<and> fst (list '''' 1000 (photos_state (failing_s3 (ClientError Map.empty)))) =
       Inl (Objects_exc ListError ''Failed to list objects: (no message)'' ''Unknown''
              (Some (ClientError Map.empty)))
   \<and> fst (get_download_url ''a.jpg'' None (photos_state (failing_s3 (ClientError Map.empty)))) =
       Inl (Objects_exc DownloadError (''Failed to generate URL for '' @ [CHR 0x27] @ ''a.jpg'' @ [CHR 0x27] @ '': (no message)'')
              ''Unknown'' (Some (ClientError Map.empty)))
   \<and> fst (delete ''a.jpg'' (photos_state (failing_s3 (ClientError Map.empty)))) =
       Inl (Objects_exc ObjectsError (''Failed to delete '' @ [CHR 0x27] @ ''a.jpg'' @ [CHR 0x27] @ '': (no message)'')
              ''Unknown'' (Some (ClientError Map.empty)))
   \<and> fst (object_exists ''a.jpg''
            (photos_state (failing_s3 (ClientError [''Error'' \<mapsto> [''Code'' \<mapsto> ''500'']])))) =
       Inl (Objects_exc ObjectsError (''Failed to check existence of '' @ [CHR 0x27] @ ''a.jpg'' @ [CHR 0x27] @ '': (no message)'')
              ''500'' (Some (ClientError [''Error'' \<mapsto> [''Code'' \<mapsto> ''500'']])))"
  using translation_defaults [where exc = "ClientError Map.empty"
      and s = "photos_state (failing_s3 (ClientError Map.empty))"
      and local_path = "''./a.jpg''" and key_arg = None and extra_args = None
      and prefix' = "''''" and max_keys = 1000 and object_key = "''a.jpg''" and expires_in = None]
  by (simp add: fst_upload fst_s3_upload_file fst_list fst_s3_list_objects_v2 fst_get_download_url
        fst_s3_generate_presigned_url fst_delete fst_s3_delete_object fst_object_exists fst_s3_head_object
        os_path_isfile_def photos_state_def failing_s3_def fixed_s3_def ObjectsConfig_init_def
        lacks_def error_code_def translate_eq parse_client_error_def)

section \<open>Values of the concrete instances\<close>

lemma basename_a: "basename ''./a.jpg'' = ''a.jpg''"
  by (simp add: basename_def)

lemma object_infos_two: "object_infos two_objects =
  Inr [\<lparr>key = ''a.jpg'', size' = 3, last_modified = ''2024-01-01 00:00:00+00:00'', etag = ''abc''\<rparr>,
       \<lparr>key = ''b.jpg'', size' = 5, last_modified = ''2024-01-02 00:00:00+00:00'', etag = ''''\<rparr>]"
  by (simp add: two_objects_def object_info_def strip_def)

section \<open>The claims\<close>

text \<open>
  Claim C1. When \<open>local_path\<close> is a regular file, \<open>upload\<close> sends exactly one request,
  an \<open>upload_file\<close> of that file to the configured bucket under some key \<open>k\<close>; whenever
  \<open>upload\<close> returns, it returns this \<open>k\<close>, and it does return it when the collaborator's
  call returns; with \<open>object_key\<close> omitted, \<open>k\<close> is the base name of \<open>local_path\<close>.
\<close>

theorem upload_returns_key_used:
  assumes "os_path_isfile s local_path"
  shows "\<exists>k. calls (snd (upload local_path object_key extra_args s)) =
               calls s @ [UploadFile local_path (bucket (config (self s))) k (dict_or_empty extra_args)]
           \<and> (\<forall>k'. fst (upload local_path object_key extra_args s) = Inr k' \<longrightarrow> k' = k)
           \<and> (fst (upload_file (s3 (self s)) local_path (bucket (config (self s))) k
                    (dict_or_empty extra_args) (remote s)) = Returns ()
                \<longrightarrow> fst (upload local_path object_key extra_args s) = Inr k)
           \<and> (object_key = None \<longrightarrow> k = basename local_path)"
proof (intro exI conjI)
  let ?k = "str_or object_key (basename local_path)"
  show "calls (snd (upload local_path object_key extra_args s)) =
          calls s @ [UploadFile local_path (bucket (config (self s))) ?k (dict_or_empty extra_args)]"
    using assms by (simp add: snd_upload snd_s3_upload_file)
  show "\<forall>k'. fst (upload local_path object_key extra_args s) = Inr k' \<longrightarrow> k' = ?k"
    using assms by (auto simp: fst_upload translate_def split: s3_result.splits prod.splits)
  show "fst (upload_file (s3 (self s)) local_path (bucket (config (self s))) ?k
               (dict_or_empty extra_args) (remote s)) = Returns ()
        \<longrightarrow> fst (upload local_path object_key extra_args s) = Inr ?k"
    using assms by (simp add: fst_upload fst_s3_upload_file)
  show "object_key = None \<longrightarrow> ?k = basename local_path"
    by (simp add: str_or_def)
qed

text \<open>
  Instance of C1: \<open>./a.jpg\<close> uploaded without a key to a collaborator that accepts it.
\<close>

theorem upload_returns_key_used_witness:
  "os_path_isfile (photos_state ok_s3) ''./a.jpg''
   \<and> fst (upload ''./a.jpg'' None None (photos_state ok_s3)) = Inr ''a.jpg''
   \<and> calls (snd (upload ''./a.jpg'' None None (photos_state ok_s3))) =
       [UploadFile ''./a.jpg'' ''photos'' ''a.jpg'' Map.empty]"
  using upload_returns_key_used [of "photos_state ok_s3" "''./a.jpg''" None None]
  by (auto simp: os_path_isfile_def photos_state_def ok_s3_def fixed_s3_def basename_a
        ObjectsConfig_init_def dict_or_empty_def)

text \<open>
  Claim C2. \<open>object_exists\<close> returns \<open>False\<close> exactly when the \<open>head_object\<close> probe
  raises a \<open>ClientError\<close> with code \<open>404\<close> or \<open>NoSuchKey\<close>; it returns \<open>True\<close> when the
  probe returns; for an error carrying any other code it raises an error of the base
  class \<open>ObjectsError\<close> with that code. No other failure of the collaborator is
  absorbed: a failed probe on which \<open>object_exists\<close> still returns is a not-found one,
  and \<open>upload\<close>, \<open>list\<close>, \<open>list_keys\<close>, \<open>get_download_url\<close> and \<open>delete\<close> raise on
  every failure of their call.
\<close>

theorem object_exists_outcomes:
  "(fst (object_exists object_key s) = Inr False \<longleftrightarrow>
      not_found (fst (head_object (s3 (self s)) (bucket (config (self s))) object_key (remote s))))
   \<and> (fst (head_object (s3 (self s)) (bucket (config (self s))) object_key (remote s)) = Returns ()
        \<longrightarrow> fst (object_exists object_key s) = Inr True)
   \<and> (\<forall>exc d c.
        fst (head_object (s3 (self s)) (bucket (config (self s))) object_key (remote s)) =
          Raises_ClientError exc
        \<and> response exc ''Error'' = Some d \<and> d ''Code'' = Some c \<and> c \<noteq> ''404'' \<and> c \<noteq> ''NoSuchKey''
        \<longrightarrow> (\<exists>m. fst (object_exists object_key s) = Inl (Objects_exc ObjectsError m c (Some exc))))
   \<and> (failed (fst (head_object (s3 (self s)) (bucket (config (self s))) object_key (remote s)))
        \<and> \<not> isl (fst (object_exists object_key s))
        \<longrightarrow> not_found (fst (head_object (s3 (self s)) (bucket (config (self s))) object_key (remote s))))
   \<and> (os_path_isfile s local_path
        \<and> failed (fst (upload_file (s3 (self s)) local_path (bucket (config (self s)))
                          (str_or key_arg (basename local_path)) (dict_or_empty extra_args) (remote s)))
        \<longrightarrow> isl (fst (upload local_path key_arg extra_args s)))
   \<and> (failed (fst (list_objects_v2 (s3 (self s)) (bucket (config (self s))) prefix' max_keys (remote s)))
        \<longrightarrow> isl (fst (list prefix' max_keys s)))
   \<and> (failed (fst (list_objects_v2 (s3 (self s)) (bucket (config (self s))) prefix' 1000 (remote s)))
        \<longrightarrow> isl (fst (list_keys prefix' s)))
   \<and> (failed (fst (generate_presigned_url (s3 (self s)) ''get_object'' (bucket (config (self s))) object_key
                      (case expires_in of Some v \<Rightarrow> v | None \<Rightarrow> default_expiry (config (self s)))
                      (remote s)))
        \<longrightarrow> isl (fst (get_download_url object_key expires_in s)))
   \<and> (failed (fst (delete_object (s3 (self s)) (bucket (config (self s))) object_key (remote s)))
        \<longrightarrow> isl (fst (delete object_key s)))"
proof (intro conjI)
  show "fst (object_exists object_key s) = Inr False \<longleftrightarrow>
      not_found (fst (head_object (s3 (self s)) (bucket (config (self s))) object_key (remote s)))"
    by (rule object_exists_False)
  show "fst (head_object (s3 (self s)) (bucket (config (self s))) object_key (remote s)) = Returns ()
        \<longrightarrow> fst (object_exists object_key s) = Inr True"
    by (simp add: fst_object_exists fst_s3_head_object)
  show "\<forall>exc d c.
        fst (head_object (s3 (self s)) (bucket (config (self s))) object_key (remote s)) =
          Raises_ClientError exc
        \<and> response exc ''Error'' = Some d \<and> d ''Code'' = Some c \<and> c \<noteq> ''404'' \<and> c \<noteq> ''NoSuchKey''
        \<longrightarrow> (\<exists>m. fst (object_exists object_key s) = Inl (Objects_exc ObjectsError m c (Some exc)))"
    using object_exists_other_code [of s object_key] by blast
qed (use object_exists_absorbs upload_propagates list_propagates list_keys_propagates
      get_download_url_propagates delete_propagates in blast)+

text \<open>
  Instance of C2: the probe for \<open>a.jpg\<close> answered by \<open>404\<close>, by \<open>NoSuchKey\<close>, by
  success and by \<open>AccessDenied\<close>.
\<close>

theorem object_exists_outcomes_witness:
  "not_found (fst (head_object (s3 (self (photos_state (failing_s3 (error_response ''404'' ''Not Found'')))))
                     ''photos'' ''a.jpg'' ()))
   \<and> fst (object_exists ''a.jpg'' (photos_state (failing_s3 (error_response ''404'' ''Not Found'')))) = Inr False
   \<and> fst (object_exists ''a.jpg'' (photos_state (failing_s3 (error_response ''NoSuchKey'' ''gone'')))) = Inr False
   \<and> fst (object_exists ''a.jpg'' (photos_state ok_s3)) = Inr True
   \<and> fst (object_exists ''a.jpg'' (photos_state (failing_s3 (error_response ''AccessDenied'' ''no'')))) =
       Inl (Objects_exc ObjectsError (''Failed to check existence of '' @ [CHR 0x27] @ ''a.jpg'' @ [CHR 0x27] @ '': no'')
              ''AccessDenied'' (Some (error_response ''AccessDenied'' ''no'')))"
  using object_exists_outcomes [where object_key = "''a.jpg''"
      and s = "photos_state (failing_s3 (error_response ''404'' ''Not Found''))"]
  by (simp add: fst_object_exists fst_s3_head_object photos_state_def failing_s3_def ok_s3_def fixed_s3_def
        error_response_def ObjectsConfig_init_def not_found_def error_code_def translate_eq
        parse_client_error_def)

text \<open>
  Claim C3. When \<open>local_path\<close> is not a regular file, \<open>upload\<close> raises
  \<open>FileNotFoundError\<close>, which is not an error of the \<open>ObjectsError\<close> hierarchy, and
  leaves the state as it was: no request has been sent to the collaborator and the
  remote state is untouched.
\<close>

theorem upload_missing_file:
  assumes "\<not> os_path_isfile s local_path"
  shows "upload local_path object_key extra_args s =
           (Inl (FileNotFoundError (''File not found: '' @ local_path)), s)
         \<and> \<not> is_ObjectsError (FileNotFoundError (''File not found: '' @ local_path))
         \<and> calls (snd (upload local_path object_key extra_args s)) = calls s
         \<and> remote (snd (upload local_path object_key extra_args s)) = remote s"
  using assms by (simp add: upload_def)

text \<open>Instance of C3: the upload of a path that is not a file.\<close>

theorem upload_missing_file_witness:
  "\<not> os_path_isfile (photos_state ok_s3) ''./missing.jpg''
   \<and> fst (upload ''./missing.jpg'' None None (photos_state ok_s3)) =
       Inl (FileNotFoundError ''File not found: ./missing.jpg'')
   \<and> calls (snd (upload ''./missing.jpg'' None None (photos_state ok_s3))) = []"
  using upload_missing_file [of "photos_state ok_s3" "''./missing.jpg''" None None]
  by (simp add: os_path_isfile_def photos_state_def)

text \<open>
  Claim C4. \<open>list_keys prefix\<close> gives the \<open>key\<close> fields of what \<open>list prefix\<close> gives,
  in the same order (and the same exception when \<open>list\<close> raises), and leaves the same
  state.
\<close>

theorem list_keys_projection:
  "fst (list_keys prefix' s) = map_sum id (map key) (fst (list prefix' 1000 s))
   \<and> snd (list_keys prefix' s) = snd (list prefix' 1000 s)"
  by (simp add: list_keys_def split: prod.splits sum.splits)

text \<open>Instance of C4: the keys of a listing of two objects.\<close>

theorem list_keys_projection_witness:
  "fst (list_keys '''' (photos_state ok_s3)) = Inr [''a.jpg'', ''b.jpg'']
   \<and> map_sum id (map key) (fst (list '''' 1000 (photos_state ok_s3))) = Inr [''a.jpg'', ''b.jpg'']"
  using list_keys_projection [of "''''" "photos_state ok_s3"]
  by (simp add: fst_list fst_s3_list_objects_v2 photos_state_def ok_s3_def fixed_s3_def object_infos_two contents_of_def)

text \<open>
  Claim C5. \<open>get_download_url\<close> sends one \<open>generate_presigned_url\<close> request for
  \<open>get_object\<close> whose \<open>ExpiresIn\<close> is \<open>config.default_expiry\<close> when \<open>expires_in\<close> is
  omitted and is the given value, unchanged, otherwise; the URL the collaborator returns
  for that request is the result.
\<close>

theorem get_download_url_expiry:
  "(expires_in = None \<longrightarrow>
      calls (snd (get_download_url object_key expires_in s)) =
        calls s @ [GeneratePresignedUrl ''get_object'' (bucket (config (self s))) object_key
                     (default_expiry (config (self s)))])
   \<and> (\<forall>v. expires_in = Some v \<longrightarrow>
      calls (snd (get_download_url object_key expires_in s)) =
        calls s @ [GeneratePresignedUrl ''get_object'' (bucket (config (self s))) object_key v])
   \<and> (\<forall>a url. calls (snd (get_download_url object_key expires_in s)) =
                 calls s @ [GeneratePresignedUrl ''get_object'' (bucket (config (self s))) object_key a]
        \<and> fst (generate_presigned_url (s3 (self s)) ''get_object'' (bucket (config (self s)))
                 object_key a (remote s)) = Returns url
        \<longrightarrow> fst (get_download_url object_key expires_in s) = Inr url)"
  by (auto simp: snd_get_download_url fst_get_download_url snd_s3_generate_presigned_url
        fst_s3_generate_presigned_url split: option.splits)

text \<open>
  Instance of C5: the default of 86400 seconds, and an explicit expiry of 0 that is
  forwarded as 0.
\<close>

theorem get_download_url_expiry_witness:
  "calls (snd (get_download_url ''a.jpg'' None (photos_state ok_s3))) =
     [GeneratePresignedUrl ''get_object'' ''photos'' ''a.jpg'' 86400]
   \<and> calls (snd (get_download_url ''a.jpg'' (Some 0) (photos_state ok_s3))) =
     [GeneratePresignedUrl ''get_object'' ''photos'' ''a.jpg'' 0]
   \<and> fst (get_download_url ''a.jpg'' (Some 0) (photos_state ok_s3)) =
     Inr ''https://s3.nevaobjects.id/photos/a.jpg?sig''"
  using get_download_url_expiry [of None "''a.jpg''" "photos_state ok_s3"]
    get_download_url_expiry [of "Some 0" "''a.jpg''" "photos_state ok_s3"]
  by (simp add: photos_state_def ok_s3_def fixed_s3_def ObjectsConfig_init_def)

text \<open>
  Claim C6. When the collaborator's \<open>delete_object\<close> raises a \<open>ClientError\<close> with code
  \<open>AccessDenied\<close>, \<open>delete\<close> raises an error of the base class \<open>ObjectsError\<close> whose
  code is \<open>AccessDenied\<close> and whose message contains the object key.
\<close>

theorem delete_access_denied:
  assumes "fst (delete_object (s3 (self s)) (bucket (config (self s))) object_key (remote s)) =
             Raises_ClientError exc"
    and "response exc ''Error'' = Some d"
    and "d ''Code'' = Some ''AccessDenied''"
  shows "\<exists>m. fst (delete object_key s) = Inl (Objects_exc ObjectsError m ''AccessDenied'' (Some exc))
             \<and> sublist object_key m"
proof -
  let ?m = "(''Failed to delete '' @ [CHR 0x27]) @ object_key @ ([CHR 0x27] @ '': '' @ snd (parse_client_error exc))"
  have "fst (delete object_key s) = Inl (Objects_exc ObjectsError ?m ''AccessDenied'' (Some exc))"
    using assms by (simp add: fst_delete fst_s3_delete_object translate_eq parse_code)
  moreover have "sublist object_key ?m"
    by (rule sublist_appendI)
  ultimately show ?thesis by blast
qed

text \<open>Instance of C6: the deletion of \<open>a.jpg\<close> refused with \<open>AccessDenied\<close>.\<close>

theorem delete_access_denied_witness:
  "fst (delete_object (s3 (self (photos_state (failing_s3 (error_response ''AccessDenied'' ''Access Denied'')))))
          ''photos'' ''a.jpg'' ()) =
     Raises_ClientError (error_response ''AccessDenied'' ''Access Denied'')
   \<and> fst (delete ''a.jpg'' (photos_state (failing_s3 (error_response ''AccessDenied'' ''Access Denied'')))) =
       Inl (Objects_exc ObjectsError (''Failed to delete '' @ [CHR 0x27] @ ''a.jpg'' @ [CHR 0x27] @ '': Access Denied'')
              ''AccessDenied'' (Some (error_response ''AccessDenied'' ''Access Denied'')))"
  using delete_access_denied [of "photos_state (failing_s3 (error_response ''AccessDenied'' ''Access Denied''))"
      "''a.jpg''" "error_response ''AccessDenied'' ''Access Denied''"
      "[''Code'' \<mapsto> ''AccessDenied'', ''Message'' \<mapsto> ''Access Denied'']"]
  by (simp add: photos_state_def failing_s3_def fixed_s3_def error_response_def ObjectsConfig_init_def
        fst_delete fst_s3_delete_object translate_eq parse_client_error_def)

text \<open>
  Claim C7. On a handle that honours \<open>Prefix\<close> and \<open>MaxKeys\<close>, whatever \<open>list\<close> returns
  has at most \<open>max_keys\<close> entries, and the key of every entry starts with \<open>prefix\<close>,
  for every \<open>prefix\<close> and \<open>max_keys\<close>. \<open>list\<close> does return when the collaborator's call
  returns objects that each have \<open>Key\<close>, \<open>Size\<close> and \<open>LastModified\<close>; and an answer with
  no or empty \<open>Contents\<close> is not a failure: \<open>list\<close> returns the empty sequence.
\<close>

theorem list_within_max_keys_and_prefix:
  assumes "honours_listing (s3 (self s))"
  shows "(\<forall>infos. fst (list prefix' max_keys s) = Inr infos \<longrightarrow>
            int (length infos) \<le> max_keys \<and> (\<forall>i \<in> set infos. prefix prefix' (key i)))
         \<and> (\<forall>resp. fst (list_objects_v2 (s3 (self s)) (bucket (config (self s))) prefix' max_keys (remote s)) =
                     Returns resp
                   \<and> (\<forall>obj \<in> set (contents_of resp).
                        Key obj \<noteq> None \<and> Size obj \<noteq> None \<and> LastModified obj \<noteq> None)
               \<longrightarrow> (\<exists>infos. fst (list prefix' max_keys s) = Inr infos))
         \<and> (\<forall>resp. fst (list_objects_v2 (s3 (self s)) (bucket (config (self s))) prefix' max_keys (remote s)) =
                     Returns resp
                   \<and> contents_of resp = []
               \<longrightarrow> fst (list prefix' max_keys s) = Inr [])"
proof (intro conjI allI impI)
  fix infos
  assume r: "fst (list prefix' max_keys s) = Inr infos"
  then obtain resp where resp:
    "fst (list_objects_v2 (s3 (self s)) (bucket (config (self s))) prefix' max_keys (remote s)) = Returns resp"
    by (auto simp: fst_list fst_s3_list_objects_v2 translate_eq split: s3_result.splits)
  have h: "int (length (contents_of resp)) \<le> max_keys"
    "\<forall>obj \<in> set (contents_of resp). \<forall>k. Key obj = Some k \<longrightarrow> prefix prefix' k"
    using assms resp unfolding honours_listing_def by blast+
  show "int (length infos) \<le> max_keys"
    using list_follows_response [OF resp] r h by blast
  show "\<forall>i \<in> set infos. prefix prefix' (key i)"
    using list_follows_response [OF resp] r h by blast
next
  fix resp
  assume "fst (list_objects_v2 (s3 (self s)) (bucket (config (self s))) prefix' max_keys (remote s)) =
            Returns resp
          \<and> (\<forall>obj \<in> set (contents_of resp).
                Key obj \<noteq> None \<and> Size obj \<noteq> None \<and> LastModified obj \<noteq> None)"
  then show "\<exists>infos. fst (list prefix' max_keys s) = Inr infos"
    using list_follows_response [of s prefix' max_keys resp] by blast
next
  fix resp
  assume "fst (list_objects_v2 (s3 (self s)) (bucket (config (self s))) prefix' max_keys (remote s)) =
            Returns resp
          \<and> contents_of resp = []"
  then show "fst (list prefix' max_keys s) = Inr []"
    using list_follows_response [of s prefix' max_keys resp] by blast
qed

text \<open>
  Instance of C7: two stored objects listed under the prefix \<open>a\<close> with \<open>max_keys = 1\<close>,
  under the empty prefix with \<open>max_keys = 1\<close> and \<open>1000\<close>, and under a prefix that
  matches nothing.
\<close>

theorem list_within_max_keys_and_prefix_witness:
  "honours_listing (s3 (self (photos_state (store_s3 two_objects))))
   \<and> fst (list ''a'' 1 (photos_state (store_s3 two_objects))) =
       Inr [\<lparr>key = ''a.jpg'', size' = 3, last_modified = ''2024-01-01 00:00:00+00:00'', etag = ''abc''\<rparr>]
   \<and> fst (list '''' 1 (photos_state (store_s3 two_objects))) =
       Inr [\<lparr>key = ''a.jpg'', size' = 3, last_modified = ''2024-01-01 00:00:00+00:00'', etag = ''abc''\<rparr>]
   \<and> map key (projr (fst (list '''' 1000 (photos_state (store_s3 two_objects))))) = [''a.jpg'', ''b.jpg'']
   \<and> fst (list ''x'' 1000 (photos_state (store_s3 two_objects))) = Inr []"
  using list_within_max_keys_and_prefix [of "photos_state (store_s3 two_objects)" "''a''" 1]
    honours_store_s3 [of two_objects]
  by (simp add: fst_list fst_s3_list_objects_v2 photos_state_def store_s3_def contents_of_def
        two_objects_def under_prefix_def object_info_def strip_def)

text \<open>
  Claim C8. Whatever sequence of public operations is performed on a client, the
  configuration (and the handle) it holds afterwards is the one it held before, requests
  are only ever added, and every request sent names the bucket of that configuration.
\<close>

theorem config_never_mutated:
  "config (self (perform_all xs s)) = config (self s)
   \<and> s3 (self (perform_all xs s)) = s3 (self s)
   \<and> calls (perform_all xs s) = calls s @ new_calls s (perform_all xs s)
   \<and> (\<forall>c \<in> set (new_calls s (perform_all xs s)). call_bucket c = bucket (config (self s)))"
  using perform_all_same_bucket [of s xs] by (simp add: same_bucket_def)

text \<open>
  Instance of C8: seven operations on the client for the bucket \<open>photos\<close>, one of them
  an upload that fails before any request; the six requests sent all name \<open>photos\<close>.
\<close>

theorem config_never_mutated_witness:
  "config (self (perform_all
       [Upload ''./a.jpg'' None None, Upload ''./missing.jpg'' None None, List ''a'' 10, ListKeys '''',
        GetDownloadUrl ''a.jpg'' None, Delete ''a.jpg'', ObjectExists ''a.jpg'']
       (photos_state ok_s3))) = ObjectsConfig_init ''AK'' ''SK'' ''photos''
   \<and> map call_bucket (calls (perform_all
       [Upload ''./a.jpg'' None None, Upload ''./missing.jpg'' None None, List ''a'' 10, ListKeys '''',
        GetDownloadUrl ''a.jpg'' None, Delete ''a.jpg'', ObjectExists ''a.jpg'']
       (photos_state ok_s3))) =
     [''photos'', ''photos'', ''photos'', ''photos'', ''photos'', ''photos'']"
  using config_never_mutated [of
      "[Upload ''./a.jpg'' None None, Upload ''./missing.jpg'' None None, List ''a'' 10, ListKeys '''',
        GetDownloadUrl ''a.jpg'' None, Delete ''a.jpg'', ObjectExists ''a.jpg'']"
      "photos_state ok_s3"]
  by (simp add: snd_upload_if snd_s3_upload_file snd_list snd_list_keys snd_s3_list_objects_v2
        snd_get_download_url snd_s3_generate_presigned_url snd_delete snd_s3_delete_object
        snd_object_exists snd_s3_head_object
        os_path_isfile_def photos_state_def ObjectsConfig_init_def)

text \<open>
  Claim C9. With the explicit key \<open>""\<close> and a regular file, the key of the
  \<open>upload_file\<close> request, and the key returned, is the base name of \<open>local_path\<close>.
\<close>

theorem upload_empty_key:
  assumes "os_path_isfile s local_path"
  shows "calls (snd (upload local_path (Some []) extra_args s)) =
           calls s @ [UploadFile local_path (bucket (config (self s))) (basename local_path)
                        (dict_or_empty extra_args)]
         \<and> (\<forall>k. fst (upload local_path (Some []) extra_args s) = Inr k \<longrightarrow> k = basename local_path)
         \<and> (fst (upload_file (s3 (self s)) local_path (bucket (config (self s))) (basename local_path)
                    (dict_or_empty extra_args) (remote s)) = Returns ()
              \<longrightarrow> fst (upload local_path (Some []) extra_args s) = Inr (basename local_path))"
  using assms
  by (auto simp: snd_upload fst_upload snd_s3_upload_file fst_s3_upload_file str_or_def translate_eq
        split: s3_result.splits)

text \<open>Instance of C9: \<open>./a.jpg\<close> uploaded with the key \<open>""\<close>.\<close>

theorem upload_empty_key_witness:
  "os_path_isfile (photos_state ok_s3) ''./a.jpg''
   \<and> fst (upload ''./a.jpg'' (Some '''') None (photos_state ok_s3)) = Inr ''a.jpg''
   \<and> fst (upload ''./a.jpg'' (Some '''') None (photos_state ok_s3)) \<noteq> Inr ''''
   \<and> calls (snd (upload ''./a.jpg'' (Some '''') None (photos_state ok_s3))) =
       [UploadFile ''./a.jpg'' ''photos'' ''a.jpg'' Map.empty]"
  using upload_empty_key [of "photos_state ok_s3" "''./a.jpg''" None]
  by (auto simp: os_path_isfile_def photos_state_def ok_s3_def fixed_s3_def basename_a
        ObjectsConfig_init_def dict_or_empty_def)


end
